theory Spec2Isabelle
  imports Complex_Main "HOL-Library.Word"
begin

unbundle bit_operations_syntax

section \<open>The notebook RNN\_continuous\_to\_discrete\<close>

text \<open>
  The repository is one Jupyter notebook. Its code cells call numpy and TensorFlow 1.x and
  mutate two pieces of process-wide state: numpy's module-level random generator and
  TensorFlow's default graph. Each cell is modelled as a function that takes the global
  state and returns its result together with the new global state; a Python exception is
  the \<open>Inl\<close> branch of the result.

  Numbers: the doubles produced by \<^verbatim>\<open>np.random.rand\<close> are 53-bit fractions
  \<open>k / 2^53\<close>, every one of them a rational number that the model holds exactly as a
  \<open>real\<close>; the comparison with \<^verbatim>\<open>.5\<close> and the stores of \<^verbatim>\<open>0.\<close> and \<^verbatim>\<open>1.\<close>
  are exact too, so the data cell involves no rounding at all.
\<close>

subsection \<open>Python exceptions\<close>

datatype py_error = ValueError | IndexError

subsection \<open>numpy's generator: randomkit's Mersenne Twister\<close>

text \<open>
  \<^verbatim>\<open>np.random.seed\<close> and \<^verbatim>\<open>np.random.rand\<close> drive the module-level \<^verbatim>\<open>RandomState\<close>,
  whose core is randomkit's \<^verbatim>\<open>rk_state\<close>: 624 words of 32 bits and a read position.
  (The cached-Gaussian fields of the C struct are left out: nothing in the notebook
  reads them.)
\<close>

record rk_state =
  key :: "32 word list"
  pos :: nat

text \<open>
  \<^verbatim>\<open>rk_seed\<close>: Knuth's linear congruential recurrence fills the key,
  \<^verbatim>\<open>seed = 1812433253 * (seed ^ (seed >> 30)) + pos + 1\<close> in 32 bits, and the position is
  set to 624 so that the first draw regenerates the key.
\<close>

fun rk_seed_loop :: "nat \<Rightarrow> nat \<Rightarrow> 32 word \<Rightarrow> 32 word list" where
  "rk_seed_loop 0 p s = []"
| "rk_seed_loop (Suc n) p s =
     s # rk_seed_loop n (Suc p) (1812433253 * (s XOR drop_bit 30 s) + of_nat p + 1)"

definition rk_seed :: "32 word \<Rightarrow> rk_state" where
  "rk_seed s = \<lparr>key = rk_seed_loop 624 0 s, pos = 624\<rparr>"

text \<open>
  One step of the in-place regeneration of \<^verbatim>\<open>rk_random\<close>:
  \<^verbatim>\<open>y = (key[i] & UPPER_MASK) | (key[i+1] & LOWER_MASK);
  key[i] = key[i+M] ^ (y >> 1) ^ (-(y & 1) & MATRIX_A)\<close>.
  The C code writes the loop in three pieces (\<open>i < N - M\<close>, \<open>i < N - 1\<close> and the last
  word) only to avoid the two index reductions modulo \<open>N = 624\<close> written here.
\<close>

definition rk_mix :: "32 word \<Rightarrow> 32 word \<Rightarrow> 32 word \<Rightarrow> 32 word" where
  "rk_mix a b c =
     (let y = (a AND 0x80000000) OR (b AND 0x7fffffff)
      in c XOR drop_bit 1 y XOR ((- (y AND 1)) AND 0x9908b0df))"

fun rk_gen_loop :: "nat \<Rightarrow> nat \<Rightarrow> 32 word list \<Rightarrow> 32 word list" where
  "rk_gen_loop 0 i k = k"
| "rk_gen_loop (Suc n) i k =
     rk_gen_loop n (Suc i)
       (k[i := rk_mix (k ! i) (k ! ((i + 1) mod 624)) (k ! ((i + 397) mod 624))])"

definition rk_temper :: "32 word \<Rightarrow> 32 word" where
  "rk_temper y0 =
     (let y1 = y0 XOR drop_bit 11 y0;
          y2 = y1 XOR (push_bit 7 y1 AND 0x9d2c5680);
          y3 = y2 XOR (push_bit 15 y2 AND 0xefc60000)
      in y3 XOR drop_bit 18 y3)"

definition rk_random :: "rk_state \<Rightarrow> 32 word \<times> rk_state" where
  "rk_random st =
     (let st1 = (if pos st = 624 then \<lparr>key = rk_gen_loop 624 0 (key st), pos = 0\<rparr> else st)
      in (rk_temper (key st1 ! pos st1), st1\<lparr>pos := pos st1 + 1\<rparr>))"

text \<open>
  \<^verbatim>\<open>rk_double\<close>: \<^verbatim>\<open>a = rk_random(state) >> 5, b = rk_random(state) >> 6;
  return (a * 67108864.0 + b) / 9007199254740992.0\<close>. Numerator and quotient are exact
  in double precision, so the real number below is the double returned.
\<close>

definition rk_double :: "rk_state \<Rightarrow> real \<times> rk_state" where
  "rk_double st =
     (let (a, st1) = rk_random st;
          (b, st2) = rk_random st1
      in ((real (unat (drop_bit 5 a)) * 67108864 + real (unat (drop_bit 6 b)))
            / 9007199254740992, st2))"

text \<open>Filling a flat array of \<open>n\<close> doubles, in order.\<close>

fun rk_fill :: "nat \<Rightarrow> rk_state \<Rightarrow> real list \<times> rk_state" where
  "rk_fill 0 st = ([], st)"
| "rk_fill (Suc n) st =
     (let (x, st1) = rk_double st;
          (xs, st2) = rk_fill n st1
      in (x # xs, st2))"

subsection \<open>The TensorFlow default graph\<close>

text \<open>
  TensorFlow 1.x code builds a graph: every call below adds operations to the default
  graph and returns a symbolic tensor, the operation that produces it applied to its
  input tensors. Operation names are made unique per graph: the second use of the name
  \<^verbatim>\<open>rnn\<close> becomes \<^verbatim>\<open>rnn_1\<close>; a name is the pair of its base and its index.
\<close>

type_synonym op_name = "string \<times> nat"
type_synonym shape = "nat option list"

datatype activation = Relu | Tanh

datatype rnn_cell = BasicRNNCell nat activation

datatype tensor =
    Placeholder op_name shape
  | DynamicRnnOutputs op_name rnn_cell tensor
  | DynamicRnnState op_name rnn_cell tensor
  | StridedSlice op_name tensor nat
  | Dense op_name tensor nat
  | SparseSoftmaxCrossEntropyWithLogits op_name tensor tensor
  | SoftmaxCrossEntropyWithLogits op_name tensor tensor
  | ReduceSum op_name tensor

record graph =
  names_in_use :: "(string \<times> nat) list"
  operations :: "tensor list"
  trainable_variables :: "op_name list"
  seed :: "int option"

subsection \<open>Process-wide state\<close>

record globals =
  np_random :: rk_state
  default_graph :: graph

subsection \<open>numpy calls of the data cell\<close>

text \<open>
  \<^verbatim>\<open>np.random.seed(seed)\<close> with an integer: a seed outside \<open>0 .. 2^32 - 1\<close> raises
  ValueError and leaves the generator alone; otherwise the generator is re-seeded.
\<close>

definition np_random_seed :: "int \<Rightarrow> globals \<Rightarrow> (py_error + unit) \<times> globals" where
  "np_random_seed s g =
     (if s > 2 ^ 32 - 1 \<or> s < 0 then (Inl ValueError, g)
      else (Inr (), g\<lparr>np_random := rk_seed (word_of_int s)\<rparr>))"

text \<open>Row \<open>i\<close> of a flat array read with shape \<open>(d0, d1)\<close>, in C order.\<close>

definition reshape :: "nat \<Rightarrow> nat \<Rightarrow> 'a list \<Rightarrow> 'a list list" where
  "reshape d0 d1 flat = map (\<lambda>i. take d1 (drop (i * d1) flat)) [0..<d0]"

text \<open>
  \<^verbatim>\<open>np.random.rand(d0, d1)\<close>: a negative dimension raises ValueError before anything is
  drawn; otherwise \<open>d0 * d1\<close> doubles are drawn in order into a \<open>d0\<close> by \<open>d1\<close> array.
\<close>

definition np_random_rand :: "int \<Rightarrow> int \<Rightarrow> globals \<Rightarrow> (py_error + real list list) \<times> globals" where
  "np_random_rand d0 d1 g =
     (if d0 < 0 \<or> d1 < 0 then (Inl ValueError, g)
      else (let (flat, st) = rk_fill (nat d0 * nat d1) (np_random g)
            in (Inr (reshape (nat d0) (nat d1) flat), g\<lparr>np_random := st\<rparr>)))"

definition np_zeros :: "int \<Rightarrow> int \<Rightarrow> py_error + real list list" where
  "np_zeros d0 d1 =
     (if d0 < 0 \<or> d1 < 0 then Inl ValueError
      else Inr (replicate (nat d0) (replicate (nat d1) 0)))"

text \<open>\<^verbatim>\<open>data > c\<close>: the elementwise comparison.\<close>

definition np_greater :: "real list list \<Rightarrow> real \<Rightarrow> bool list list" where
  "np_greater a c = map (map (\<lambda>x. x > c)) a"

text \<open>
  \<^verbatim>\<open>np.where(cond)\<close> with one argument: the row indices and the column indices of the
  true entries, in row-major order.
\<close>

definition np_where :: "bool list list \<Rightarrow> nat list \<times> nat list" where
  "np_where m =
     (let ps = concat (map (\<lambda>i. map (\<lambda>j. (i, j)) (filter (\<lambda>j. m ! i ! j) [0..<length (m ! i)]))
                        [0..<length m])
      in (map fst ps, map snd ps))"

text \<open>
  \<^verbatim>\<open>a[(rows, cols)] = v\<close>: index arrays of different lengths or an index out of bounds
  raise IndexError, and then nothing is stored; otherwise \<open>v\<close> is stored at every
  \<open>(rows[k], cols[k])\<close>.
\<close>

definition in_bounds :: "'a list list \<Rightarrow> nat \<times> nat \<Rightarrow> bool" where
  "in_bounds a p = (fst p < length a \<and> snd p < length (a ! fst p))"

definition store :: "nat \<times> nat \<Rightarrow> 'a \<Rightarrow> 'a list list \<Rightarrow> 'a list list" where
  "store p v a = a[fst p := (a ! fst p)[snd p := v]]"

definition setitem :: "'a list list \<Rightarrow> nat list \<times> nat list \<Rightarrow> 'a \<Rightarrow> py_error + 'a list list" where
  "setitem a idx v =
     (let ps = zip (fst idx) (snd idx)
      in if length (fst idx) \<noteq> length (snd idx) \<or> \<not> list_all (in_bounds a) ps
         then Inl IndexError
         else Inr (fold (\<lambda>p. store p v) ps a))"

subsection \<open>The data cell\<close>

text \<open>
  \<^verbatim>\<open>
  seed = 20
  np.random.seed(seed)
  data = np.random.rand(1000,10)
  labels = np.zeros((1000,10))
  labels[np.where(data>.5)] = 1
  \<close>
  with the three literals as arguments: \<open>generate batch_size seq_len seed\<close>. The result is
  the pair \<open>(data, labels)\<close>, or the exception that ended the cell.
\<close>

definition generate ::
  "int \<Rightarrow> int \<Rightarrow> int \<Rightarrow> globals \<Rightarrow> (py_error + real list list \<times> real list list) \<times> globals" where
  "generate batch_size seq_len sd g =
     (case np_random_seed sd g of
        (Inl e, g1) \<Rightarrow> (Inl e, g1)
      | (Inr _, g1) \<Rightarrow>
          (case np_random_rand batch_size seq_len g1 of
             (Inl e, g2) \<Rightarrow> (Inl e, g2)
           | (Inr data, g2) \<Rightarrow>
               (case np_zeros batch_size seq_len of
                  Inl e \<Rightarrow> (Inl e, g2)
                | Inr labels0 \<Rightarrow>
                    (case setitem labels0 (np_where (np_greater data (1 / 2))) 1 of
                       Inl e \<Rightarrow> (Inl e, g2)
                     | Inr labels \<Rightarrow> (Inr (data, labels), g2)))))"

definition data_cell :: "globals \<Rightarrow> (py_error + real list list \<times> real list list) \<times> globals" where
  "data_cell = generate 1000 10 20"

subsection \<open>Example state\<close>

text \<open>
  A process state to run examples from: the generator as \<^verbatim>\<open>np.random.seed(0)\<close> leaves it
  and an empty default graph.
\<close>

definition fresh_graph :: graph where
  "fresh_graph = \<lparr>names_in_use = [], operations = [], trainable_variables = [], seed = None\<rparr>"

definition example_globals :: globals where
  "example_globals = \<lparr>np_random = rk_seed 0, default_graph = fresh_graph\<rparr>"

text \<open>
  The row that the cell draws first with seed 20, as exact fractions \<open>k / 2^53\<close>. The
  notebook's recorded output prints it rounded to eight digits:
  \<^verbatim>\<open>[ 0.5881308   0.89771373  0.89153073  0.81583748  0.03588959  0.69175758
    0.37868094  0.51851095  0.65795147  0.19385022]\<close>.
\<close>

definition seed20_row :: "real list" where
  "seed20_row =
     [5297411313153447 / 9007199254740992, 8085886420996467 / 9007199254740992,
      8030194922103283 / 9007199254740992, 7348410717595542 / 9007199254740992,
      323264648821084 / 9007199254740992, 6230798374880050 / 9007199254740992,
      3410854698615729 / 9007199254740992, 4670331401414999 / 9007199254740992,
      5926299950237084 / 9007199254740992, 1746047538046671 / 9007199254740992]"

section \<open>The labelling\<close>

text \<open>
  Storing through index arrays: a fold of single stores. After it, an in-bounds cell holds
  the stored value exactly if its index pair is among the indices.
\<close>

lemma in_bounds_store: "in_bounds (store p v a) q = in_bounds a q"
  by (cases "fst p < length a"; cases "fst q = fst p") (auto simp: in_bounds_def store_def)

lemma length_fold_store: "length (fold (\<lambda>p. store p v) ps a) = length a"
  by (induction ps arbitrary: a) (auto simp: store_def)

lemma store_nth:
  "in_bounds a p \<Longrightarrow> i < length a \<Longrightarrow> t < length (a ! i) \<Longrightarrow>
   store p v a ! i ! t = (if (i, t) = p then v else a ! i ! t)"
  by (cases p) (auto simp: in_bounds_def store_def nth_list_update)

lemma length_store_nth: "length (store p v a ! i) = length (a ! i)"
  by (cases "fst p < length a"; cases "i = fst p") (auto simp: store_def list_update_beyond)

lemma fold_store_nth:
  "list_all (in_bounds a) ps \<Longrightarrow> i < length a \<Longrightarrow> t < length (a ! i) \<Longrightarrow>
   fold (\<lambda>p. store p v) ps a ! i ! t = (if (i, t) \<in> set ps then v else a ! i ! t)"
proof (induction ps arbitrary: a)
  case Nil
  then show ?case by simp
next
  case (Cons p ps)
  have b: "list_all (in_bounds (store p v a)) ps"
    using Cons.prems(1) by (simp add: list_all_iff in_bounds_store)
  have l: "i < length (store p v a)" using Cons.prems(2) by (simp add: store_def)
  have r: "t < length (store p v a ! i)" using Cons.prems(3) by (simp add: length_store_nth)
  have "fold (\<lambda>p. store p v) (p # ps) a ! i ! t = fold (\<lambda>p. store p v) ps (store p v a) ! i ! t"
    by simp
  also have "\<dots> = (if (i, t) \<in> set ps then v else store p v a ! i ! t)"
    by (rule Cons.IH [OF b l r])
  also have "\<dots> = (if (i, t) \<in> set (p # ps) then v else a ! i ! t)"
    using Cons.prems by (auto simp: store_nth)
  finally show ?case .
qed

lemma length_fold_store_nth: "length (fold (\<lambda>p. store p v) ps a ! i) = length (a ! i)"
  by (induction ps arbitrary: a) (auto simp: length_store_nth)

lemma zip_np_where:
  "zip (fst (np_where m)) (snd (np_where m)) =
   concat (map (\<lambda>i. map (\<lambda>j. (i, j)) (filter (\<lambda>j. m ! i ! j) [0..<length (m ! i)])) [0..<length m])"
  by (simp add: np_where_def Let_def zip_map_fst_snd)

lemma length_np_where: "length (fst (np_where m)) = length (snd (np_where m))"
  by (simp add: np_where_def Let_def)

lemma set_np_where:
  "(i, j) \<in> set (zip (fst (np_where m)) (snd (np_where m))) \<longleftrightarrow>
   i < length m \<and> j < length (m ! i) \<and> m ! i ! j"
  by (auto simp: zip_np_where)

section \<open>Shapes\<close>

lemma length_rk_seed_loop: "length (rk_seed_loop n p s) = n"
  by (induction n arbitrary: p s) auto

lemma length_rk_fill: "length (fst (rk_fill n st)) = n"
proof (induction n arbitrary: st)
  case 0
  show ?case by simp
next
  case (Suc n)
  show ?case using Suc.IH [of "snd (rk_double st)"]
    by (cases "rk_double st"; cases "rk_fill n (snd (rk_double st))") (simp add: Let_def)
qed

lemma length_reshape: "length (reshape d0 d1 flat) = d0"
  by (simp add: reshape_def)

lemma length_reshape_nth:
  assumes "i < d0" "length flat = d0 * d1"
  shows "length (reshape d0 d1 flat ! i) = d1"
proof -
  have "Suc i \<le> d0" using assms(1) by simp
  then have "Suc i * d1 \<le> d0 * d1" by (rule mult_le_mono1)
  then have "d1 \<le> length flat - i * d1" using assms(2) by simp
  then show ?thesis using assms(1) by (simp add: reshape_def min_def)
qed


lemma in_bounds_np_where:
  assumes "length a = length m" "\<forall>i<length m. length (a ! i) = length (m ! i)"
  shows "list_all (in_bounds a) (zip (fst (np_where m)) (snd (np_where m)))"
  unfolding list_all_iff
proof
  fix p assume "p \<in> set (zip (fst (np_where m)) (snd (np_where m)))"
  then have "fst p < length m \<and> snd p < length (m ! fst p)"
    using set_np_where [of "fst p" "snd p" m] by simp
  then show "in_bounds a p" using assms by (simp add: in_bounds_def)
qed

lemma setitem_np_where:
  assumes "length a = length m" "\<forall>i<length m. length (a ! i) = length (m ! i)"
  shows "setitem a (np_where m) v =
         Inr (fold (\<lambda>p. store p v) (zip (fst (np_where m)) (snd (np_where m))) a)"
  using in_bounds_np_where [OF assms] by (simp add: setitem_def Let_def length_np_where)

lemma setitem_np_where_nth:
  assumes "length a = length m" "\<forall>i<length m. length (a ! i) = length (m ! i)"
    and "setitem a (np_where m) v = Inr b" "i < length m" "t < length (m ! i)"
  shows "b ! i ! t = (if m ! i ! t then v else a ! i ! t)"
proof -
  let ?ps = "zip (fst (np_where m)) (snd (np_where m))"
  have b: "b = fold (\<lambda>p. store p v) ?ps a"
    using assms(3) setitem_np_where [OF assms(1,2), of v] by simp
  have "fold (\<lambda>p. store p v) ?ps a ! i ! t = (if (i, t) \<in> set ?ps then v else a ! i ! t)"
    using assms by (intro fold_store_nth in_bounds_np_where) simp_all
  then show ?thesis using assms(4,5) by (simp add: b set_np_where)
qed

lemma setitem_shape:
  assumes "setitem a idx v = Inr b"
  shows "length b = length a \<and> (\<forall>i. length (b ! i) = length (a ! i))"
  using assms
  by (auto simp: setitem_def Let_def length_fold_store length_fold_store_nth split: if_splits)

lemma np_random_rand_Inr:
  assumes "np_random_rand d0 d1 g = (Inr data, g')"
  shows "0 \<le> d0 \<and> 0 \<le> d1 \<and>
         data = reshape (nat d0) (nat d1) (fst (rk_fill (nat d0 * nat d1) (np_random g))) \<and>
         g' = g\<lparr>np_random := snd (rk_fill (nat d0 * nat d1) (np_random g))\<rparr>"
  using assms by (auto simp: np_random_rand_def Let_def split: if_splits prod.splits)

lemma np_random_rand_shape:
  assumes "np_random_rand d0 d1 g = (Inr data, g')"
  shows "length data = nat d0 \<and> (\<forall>i<nat d0. length (data ! i) = nat d1)"
  using np_random_rand_Inr [OF assms] by (simp add: length_reshape length_reshape_nth length_rk_fill)

lemma generate_Inr:
  assumes "generate batch_size seq_len sd g = (Inr (values, labels), g')"
  shows "0 \<le> sd \<and> sd \<le> 2 ^ 32 - 1 \<and>
         np_random_rand batch_size seq_len (g\<lparr>np_random := rk_seed (word_of_int sd)\<rparr>)
           = (Inr values, g') \<and>
         setitem (replicate (nat batch_size) (replicate (nat seq_len) 0))
           (np_where (np_greater values (1 / 2))) 1 = Inr labels"
  using assms
  by (auto simp: generate_def np_random_seed_def np_zeros_def
           split: if_splits prod.splits sum.splits)

lemma generate_labels_nth:
  assumes "generate batch_size seq_len sd g = (Inr (values, labels), g')"
    and "i < length values" "t < length (values ! i)"
  shows "labels ! i ! t = (if values ! i ! t > 1 / 2 then 1 else 0)"
proof -
  let ?m = "np_greater values (1 / 2)"
  let ?z = "replicate (nat batch_size) (replicate (nat seq_len) (0::real))"
  note G = generate_Inr [OF assms(1)]
  from G have sh: "length values = nat batch_size" "\<forall>i<nat batch_size. length (values ! i) = nat seq_len"
    using np_random_rand_shape by blast+
  have m: "length ?m = length values" "\<forall>i<length values. length (?m ! i) = length (values ! i)"
    by (simp_all add: np_greater_def)
  have z1: "length ?z = length ?m" using sh m by simp
  have z2: "\<forall>i<length ?m. length (?z ! i) = length (?m ! i)" using sh m by simp
  have s: "setitem ?z (np_where ?m) 1 = Inr labels" using G by simp
  have i: "i < length ?m" using assms(2) m by simp
  have t: "t < length (?m ! i)" using assms(2,3) m by simp
  have "labels ! i ! t = (if ?m ! i ! t then 1 else ?z ! i ! t)"
    by (rule setitem_np_where_nth [OF z1 z2 s i t])
  moreover have "?m ! i ! t \<longleftrightarrow> values ! i ! t > 1 / 2"
    using assms(2,3) by (simp add: np_greater_def)
  moreover have "?z ! i ! t = 0" using assms(2,3) sh by simp
  ultimately show ?thesis by simp
qed

lemma generate_shape:
  assumes "generate batch_size seq_len sd g = (Inr (values, labels), g')"
  shows "length values = nat batch_size" "length labels = nat batch_size"
    "i < nat batch_size \<Longrightarrow> length (values ! i) = nat seq_len"
    "i < nat batch_size \<Longrightarrow> length (labels ! i) = nat seq_len"
proof -
  note G = generate_Inr [OF assms(1)]
  from G show "length values = nat batch_size"
    using np_random_rand_shape by blast
  from G show "i < nat batch_size \<Longrightarrow> length (values ! i) = nat seq_len"
    using np_random_rand_shape by blast
  from G have "setitem (replicate (nat batch_size) (replicate (nat seq_len) 0))
                  (np_where (np_greater values (1 / 2))) 1 = Inr labels"
    by simp
  then have s: "length labels = length (replicate (nat batch_size) (replicate (nat seq_len) (0::real)))
     \<and> (\<forall>i. length (labels ! i) = length (replicate (nat batch_size) (replicate (nat seq_len) (0::real)) ! i))"
    by (rule setitem_shape)
  from s show "length labels = nat batch_size" by simp
  from s show "i < nat batch_size \<Longrightarrow> length (labels ! i) = nat seq_len" by simp
qed


lemma generate_labels_map:
  assumes "generate batch_size seq_len sd g = (Inr (values, labels), g')"
  shows "labels = map (map (\<lambda>x. if x > 1 / 2 then 1 else 0)) values"
proof (rule nth_equalityI)
  show "length labels = length (map (map (\<lambda>x. if x > 1 / 2 then 1 else (0::real))) values)"
    using generate_shape(1,2) [OF assms] by simp
next
  fix i assume "i < length labels"
  then have i: "i < nat batch_size" "i < length values"
    using generate_shape(1,2) [OF assms] by simp_all
  have l: "length (labels ! i) = length (values ! i)"
    using generate_shape(3,4) [OF assms i(1)] by simp
  have "labels ! i = map (\<lambda>x. if x > 1 / 2 then 1 else 0) (values ! i)"
  proof (rule nth_equalityI)
    show "length (labels ! i) = length (map (\<lambda>x. if x > 1 / 2 then 1 else (0::real)) (values ! i))"
      using l by simp
  next
    fix t assume "t < length (labels ! i)"
    then have t: "t < length (values ! i)" using l by simp
    show "labels ! i ! t = map (\<lambda>x. if x > 1 / 2 then 1 else 0) (values ! i) ! t"
      using generate_labels_nth [OF assms i(2) t] t by simp
  qed
  then show "labels ! i = map (map (\<lambda>x. if x > 1 / 2 then 1 else 0)) values ! i"
    using i(2) by simp
qed

lemma generate_success:
  assumes "0 \<le> batch_size" "0 \<le> seq_len" "0 \<le> sd" "sd \<le> 2 ^ 32 - 1"
  defines "r \<equiv> rk_fill (nat batch_size * nat seq_len) (rk_seed (word_of_int sd))"
  defines "values \<equiv> reshape (nat batch_size) (nat seq_len) (fst r)"
  shows "generate batch_size seq_len sd g =
           (Inr (values, map (map (\<lambda>x. if x > 1 / 2 then 1 else 0)) values),
            g\<lparr>np_random := snd r\<rparr>)"
proof -
  let ?m = "np_greater values (1 / 2)"
  let ?z = "replicate (nat batch_size) (replicate (nat seq_len) (0::real))"
  have sh: "length values = nat batch_size" "\<forall>i<nat batch_size. length (values ! i) = nat seq_len"
    by (simp_all add: values_def r_def length_reshape length_reshape_nth length_rk_fill)
  have z1: "length ?z = length ?m" using sh by (simp add: np_greater_def)
  have z2: "\<forall>i<length ?m. length (?z ! i) = length (?m ! i)" using sh by (simp add: np_greater_def)
  obtain labels where s: "setitem ?z (np_where ?m) 1 = Inr labels"
    using setitem_np_where [OF z1 z2] by simp
  have rand: "np_random_rand batch_size seq_len (g\<lparr>np_random := rk_seed (word_of_int sd)\<rparr>) =
              (Inr values, g\<lparr>np_random := snd r\<rparr>)"
    using assms(1,2) by (simp add: np_random_rand_def values_def r_def split: prod.splits)
  have gen: "generate batch_size seq_len sd g = (Inr (values, labels), g\<lparr>np_random := snd r\<rparr>)"
    using assms(1-4) s rand by (simp add: generate_def np_random_seed_def np_zeros_def)
  show ?thesis using generate_labels_map [OF gen] gen by simp
qed


section \<open>The generator after \<^verbatim>\<open>np.random.seed(20)\<close>\<close>

text \<open>
  The first draw after seeding regenerates the key in place. Word \<open>j < 227\<close> of the new
  key depends on three words of the seeded key only, which is enough to compute the
  first twenty outputs without running the whole regeneration.
\<close>

lemma length_rk_gen_loop: "length (rk_gen_loop n i k) = length k"
  by (induction n arbitrary: i k) auto

lemma rk_gen_loop_below: "j < i \<Longrightarrow> rk_gen_loop n i k ! j = k ! j"
  by (induction n arbitrary: i k) auto

lemma rk_gen_loop_above: "i + n \<le> j \<Longrightarrow> rk_gen_loop n i k ! j = k ! j"
  by (induction n arbitrary: i k) auto

lemma rk_gen_loop_add: "rk_gen_loop (m + n) i k = rk_gen_loop n (i + m) (rk_gen_loop m i k)"
  by (induction m arbitrary: i k) auto

lemma rk_gen_loop_nth:
  assumes "length k = 624" "j < 227"
  shows "rk_gen_loop 624 0 k ! j = rk_mix (k ! j) (k ! (j + 1)) (k ! (j + 397))"
proof -
  let ?k = "rk_gen_loop j 0 k"
  have "624 = j + Suc (623 - j)" using assms(2) by simp
  then have "rk_gen_loop 624 0 k = rk_gen_loop (Suc (623 - j)) j ?k"
    using rk_gen_loop_add [of j "Suc (623 - j)" 0 k] by simp
  then have "rk_gen_loop 624 0 k ! j =
             (?k[j := rk_mix (?k ! j) (?k ! ((j + 1) mod 624)) (?k ! ((j + 397) mod 624))]) ! j"
    by (simp add: rk_gen_loop_below)
  also have "\<dots> = rk_mix (?k ! j) (?k ! ((j + 1) mod 624)) (?k ! ((j + 397) mod 624))"
    using assms by (simp add: length_rk_gen_loop)
  also have "\<dots> = rk_mix (k ! j) (k ! (j + 1)) (k ! (j + 397))"
    using assms(2) by (simp add: rk_gen_loop_above)
  finally show ?thesis .
qed

lemma seed20_low: "take 21 (rk_seed_loop 624 0 20) =
   [20, 1888926693, 1765876982, 2587673718, 2923926984, 1642934967, 3182585812, 1875803509,
    4224094924, 4052857524, 1579184445, 3892955319, 892371728, 1203193181, 351312218,
    779332241, 266396741, 4156947530, 1730058719, 3967582889, 968001318]"
  by code_simp

lemma seed20_high: "take 20 (drop 397 (rk_seed_loop 624 0 20)) =
   [1790528185, 4011783206, 820060456, 2343075416, 2978874643, 1563761223, 1894569265,
    1607912836, 2120107022, 2114314881, 269016599, 3640324011, 1389983457, 3498690554,
    2251237336, 1004823710, 1128677875, 161515544, 2379385623, 1242701289]"
  by code_simp

lemma seed20_nth_low:
  "j < 21 \<Longrightarrow> rk_seed_loop 624 0 20 ! j =
     [20, 1888926693, 1765876982, 2587673718, 2923926984, 1642934967, 3182585812, 1875803509,
      4224094924, 4052857524, 1579184445, 3892955319, 892371728, 1203193181, 351312218,
      779332241, 266396741, 4156947530, 1730058719, 3967582889, 968001318] ! j"
  using seed20_low nth_take [of j 21 "rk_seed_loop 624 0 20"] by simp

lemma seed20_nth_high:
  assumes "397 \<le> j" "j < 417"
  shows "rk_seed_loop 624 0 20 ! j =
     [1790528185, 4011783206, 820060456, 2343075416, 2978874643, 1563761223, 1894569265,
      1607912836, 2120107022, 2114314881, 269016599, 3640324011, 1389983457, 3498690554,
      2251237336, 1004823710, 1128677875, 161515544, 2379385623, 1242701289] ! (j - 397)"
proof -
  have "take 20 (drop 397 (rk_seed_loop 624 0 20)) ! (j - 397) = rk_seed_loop 624 0 20 ! j"
    using assms by (simp add: length_rk_seed_loop)
  then show ?thesis by (simp add: seed20_high)
qed

lemma seed20_raw:
  "map (\<lambda>j. rk_gen_loop 624 0 (rk_seed_loop 624 0 20) ! j)
     [0..<20] =
   [3422201748, 3686688349, 1040139027, 3700143292, 1483746455, 1139550637, 2651020116,
    1647674594, 110533972, 2283629248, 3171191443, 2187505187, 3892995216, 3673262935,
    136200783, 2770118243, 2024062934, 3811013672, 585398940, 382426746]"
  by (simp add: upt_conv_Cons rk_gen_loop_nth length_rk_seed_loop seed20_nth_low seed20_nth_high
        rk_mix_def)

lemma seed20_raw_nth:
  assumes "p < 20"
  shows "rk_gen_loop 624 0 (rk_seed_loop 624 0 20) ! p =
     [3422201748, 3686688349, 1040139027, 3700143292, 1483746455, 1139550637, 2651020116,
      1647674594, 110533972, 2283629248, 3171191443, 2187505187, 3892995216, 3673262935,
      136200783, 2770118243, 2024062934, 3811013672, 585398940, 382426746] ! p"
proof -
  have "map (\<lambda>j. rk_gen_loop 624 0 (rk_seed_loop 624 0 20) ! j) [0..<20] ! p =
        rk_gen_loop 624 0 (rk_seed_loop 624 0 20) ! p"
    using assms by (simp del: upt_rec_numeral)
  then show ?thesis by (simp only: seed20_raw)
qed

lemma seed20_random:
  assumes "p < 20"
  shows "rk_random \<lparr>key = rk_gen_loop 624 0 (rk_seed_loop 624 0 20), pos = p\<rparr> =
         (rk_temper (
            [3422201748, 3686688349, 1040139027, 3700143292, 1483746455, 1139550637,
             2651020116, 1647674594, 110533972, 2283629248, 3171191443, 2187505187, 3892995216,
             3673262935, 136200783, 2770118243, 2024062934, 3811013672, 585398940, 382426746] ! p),
          \<lparr>key = rk_gen_loop 624 0 (rk_seed_loop 624 0 20), pos = Suc p\<rparr>)"
  using assms by (simp add: rk_random_def seed20_raw_nth)

lemma rk_random_regenerate:
  "pos st = 624 \<Longrightarrow> rk_random st = rk_random \<lparr>key = rk_gen_loop 624 0 (key st), pos = 0\<rparr>"
  by (simp add: rk_random_def)

lemma rk_fill_numeral:
  "rk_fill (numeral n) st =
     (let (x, st1) = rk_double st; (xs, st2) = rk_fill (pred_numeral n) st1 in (x # xs, st2))"
  by (simp add: numeral_eq_Suc)

lemma rk_fill_1:
  "rk_fill 1 st = (let (x, st1) = rk_double st in ([x], st1))"
  by (simp add: Let_def split: prod.splits)

lemma seed20_fill:
  "rk_fill 10 (rk_seed 20) =
     (seed20_row,
      \<lparr>key = rk_gen_loop 624 0 (rk_seed_loop 624 0 20), pos = 20\<rparr>)"
proof -
  have "rk_fill 10 (rk_seed 20) =
        rk_fill 10 \<lparr>key = rk_gen_loop 624 0 (rk_seed_loop 624 0 20), pos = 0\<rparr>"
    by (simp add: rk_fill_numeral rk_double_def rk_seed_def rk_random_regenerate)
  also have "\<dots> = (seed20_row,
      \<lparr>key = rk_gen_loop 624 0 (rk_seed_loop 624 0 20), pos = 20\<rparr>)"
    by (simp add: rk_fill_numeral rk_fill_1 rk_double_def seed20_random rk_temper_def
          seed20_row_def)
  finally show ?thesis .
qed

lemma seed20_generate:
  "generate 1 10 20 g =
     (Inr ([seed20_row], [[1, 1, 1, 1, 0, 1, 0, 1, 1, 0]]),
      g\<lparr>np_random := \<lparr>key = rk_gen_loop 624 0 (rk_seed_loop 624 0 20), pos = 20\<rparr>\<rparr>)"
  using generate_success [of 1 10 20 g] by (simp add: seed20_fill reshape_def seed20_row_def)

section \<open>Range of the draws, errors and the state left behind\<close>






text \<open>
  The recorded output of the cell, \<^verbatim>\<open>print(data[0])\<close> at numpy's eight digits, is the
  row that the model computes.
\<close>

lemma seed20_row_printed:
  "map (\<lambda>v. round (v * 10 ^ 8)) seed20_row =
     [58813080, 89771373, 89153073, 81583748, 3588959,
      69175758, 37868094, 51851095, 65795147, 19385022]"
  by (simp add: seed20_row_def round_def)

section \<open>Claims about the data cell\<close>

text \<open>
  C1. For every generated batch, every sequence index \<open>i\<close> and every position \<open>t\<close>:
  \<open>labels[i][t]\<close> is 1 if and only if \<open>values[i][t]\<close> is strictly greater than 0.5. The
  labels are a function of the values alone.
\<close>

theorem labels_iff_threshold:
  assumes "generate batch_size seq_len sd g = (Inr (values, labels), g')"
    and "i < length values" "t < length (values ! i)"
  shows "(labels ! i ! t = 1 \<longleftrightarrow> values ! i ! t > 1 / 2) \<and>
         labels = map (map (\<lambda>x. if x > 1 / 2 then 1 else 0)) values"
  using generate_labels_nth [OF assms] generate_labels_map [OF assms(1)] by simp

theorem labels_iff_threshold_witness:
  "generate 1 10 20 example_globals =
     (Inr ([seed20_row], [[1, 1, 1, 1, 0, 1, 0, 1, 1, 0]]),
      example_globals\<lparr>np_random := \<lparr>key = rk_gen_loop 624 0 (rk_seed_loop 624 0 20), pos = 20\<rparr>\<rparr>) \<and>
   (0::nat) < length [seed20_row] \<and>
   (4::nat) < length ([seed20_row] ! 0) \<and>
   (([[1, 1, 1, 1, 0, 1, 0, 1, 1, 0]] ! 0 ! 4 = (1::real)) \<longleftrightarrow>
    [seed20_row] ! 0 ! 4 > (1 / 2 :: real)) \<and>
   [[1, 1, 1, 1, 0, 1, 0, 1, 1, 0]] = map (map (\<lambda>x. if x > 1 / 2 then 1 else 0)) [seed20_row]"
  using labels_iff_threshold [OF seed20_generate [of example_globals], of 0 4]
    seed20_generate [of example_globals]
  by (simp add: seed20_row_def)

text \<open>
  C2. For every seed and every pair of shape arguments, two calls with the same seed and
  the same shape arguments produce the same result, whatever state each call starts from
  (in particular the state the first call leaves behind).
\<close>

theorem generate_deterministic:
  "fst (generate batch_size seq_len sd g1) = fst (generate batch_size seq_len sd g2)"
  by (simp add: generate_def np_random_seed_def np_random_rand_def np_zeros_def Let_def
           split: prod.splits sum.splits)

theorem generate_deterministic_witness:
  "fst (generate 1 10 20 example_globals) =
   fst (generate 1 10 20 (snd (generate 1 10 20 example_globals)))"
  by (rule generate_deterministic)

text \<open>
  C3. With batch size 1, sequence length 10 and seed 20 the values are, to three decimals,
  0.588, 0.898, 0.892, 0.816, 0.036, 0.692, 0.379, 0.519, 0.658, 0.194 and the labels are
  exactly 1, 1, 1, 1, 0, 1, 0, 1, 1, 0.
\<close>

theorem seed20_scenario:
  "fst (generate 1 10 20 g) = Inr ([seed20_row], [[1, 1, 1, 1, 0, 1, 0, 1, 1, 0]]) \<and>
   list_all2 (\<lambda>v c. \<bar>v - c\<bar> < 1 / 2000) seed20_row
     [588 / 1000, 898 / 1000, 892 / 1000, 816 / 1000, 36 / 1000,
      692 / 1000, 379 / 1000, 519 / 1000, 658 / 1000, 194 / 1000]"
  by (simp add: seed20_generate) (simp add: seed20_row_def)

theorem seed20_scenario_witness:
  "fst (generate 1 10 20 example_globals) = Inr ([seed20_row], [[1, 1, 1, 1, 0, 1, 0, 1, 1, 0]]) \<and>
   list_all2 (\<lambda>v c. \<bar>v - c\<bar> < 1 / 2000) seed20_row
     [588 / 1000, 898 / 1000, 892 / 1000, 816 / 1000, 36 / 1000,
      692 / 1000, 379 / 1000, 519 / 1000, 658 / 1000, 194 / 1000]"
  by (rule seed20_scenario)










text \<open>
  C10. Every entry of the labels array is exactly 0 or exactly 1.
\<close>

theorem labels_zero_or_one:
  assumes "generate batch_size seq_len sd g = (Inr (values, labels), g')"
  shows "\<forall>row \<in> set labels. \<forall>x \<in> set row. x = 0 \<or> x = 1"
  using generate_labels_map [OF assms] by auto

theorem labels_zero_or_one_witness:
  "generate 1 10 20 example_globals =
     (Inr ([seed20_row], [[1, 1, 1, 1, 0, 1, 0, 1, 1, 0]]),
      example_globals\<lparr>np_random := \<lparr>key = rk_gen_loop 624 0 (rk_seed_loop 624 0 20), pos = 20\<rparr>\<rparr>) \<and>
   list_all (list_all (\<lambda>x. x = 0 \<or> x = 1)) [[1, 1, 1, 1, 0, 1, 0, 1, 1, 0 :: real]]"
  using labels_zero_or_one [OF seed20_generate [of example_globals]]
    seed20_generate [of example_globals]
  by (simp add: list_all_iff)

end
